theory Spec2Isabelle
  imports
    Main
    "HOL-Library.Word"
    "HOL-Library.AList"
    "HOL-Library.List_Lexorder"
    "HOL-Library.Char_ord"
    "HOL-Library.Multiset"
begin

section \<open>The xDS manager of ekglue (package xds)\<close>

text \<open>
  The development embeds the resource store and the per-client stream driver of
  \<^verbatim>\<open>pkg/xds\<close>: \<^verbatim>\<open>resourceName\<close>, \<^verbatim>\<open>versionString\<close>,
  \<^verbatim>\<open>snapshot\<close>, \<^verbatim>\<open>notify\<close>, \<^verbatim>\<open>Add\<close>, \<^verbatim>\<open>Replace\<close>,
  \<^verbatim>\<open>Delete\<close>, \<^verbatim>\<open>List\<close>, \<^verbatim>\<open>randomString\<close>,
  \<^verbatim>\<open>BuildDiscoveryResponse\<close> and the select loop of \<^verbatim>\<open>Stream\<close>.

  Conventions of the embedding.
  \<^item> A Go map is an association list read with \<open>map_of\<close> and written with
    \<open>AList.update\<close> and \<open>AList.delete\<close>; Go iterates a map in an unspecified order, the
    list order stands for one such order.
  \<^item> A Go slice is a \<open>list option\<close>: \<open>None\<close> is the nil slice, which
    \<^verbatim>\<open>cmp.Diff\<close> tells apart from an empty non-nil slice.
  \<^item> A call returns, panics, or blocks for ever on a channel send: the three
    constructors of \<open>res\<close>. The state reached is returned beside the outcome, since a
    panic or an error return does not undo earlier writes.
  \<^item> What the environment decides is an argument: the outcome of
    \<^verbatim>\<open>crypto/rand.Read\<close>, of the generated \<^verbatim>\<open>Validate\<close> of a response, of the
    race between a channel send and a timer or a context, the clock, and the order in
    which the select loop of \<^verbatim>\<open>Stream\<close> receives its events.
  \<^item> Logging, metrics and tracing spans have no effect on the values below and are
    left out.
\<close>

subsection \<open>Values\<close>

type_synonym 'a slice = "'a list option"

definition elems :: "'a slice \<Rightarrow> 'a list" where
  "elems s = (case s of None \<Rightarrow> [] | Some xs \<Rightarrow> xs)"

definition len :: "'a slice \<Rightarrow> nat" where
  "len s = length (elems s)"

datatype 'a res = Ret 'a | Panic string | Blocked

datatype error =
    ValidationFailed string string
  | MarshalFailed string string
  | SnapshotFailed error
  | ResponseInvalid string
  | ContextError string
  | ServerDraining
  | RequestChannelClosed
  | FailedPrecondition string
  | InvalidArgument string

text \<open>
  The constructors of \<open>error\<close> stand for the error values the package builds:
  \<^verbatim>\<open>fmt.Errorf("%q: %w", n, err)\<close> in \<^verbatim>\<open>Add\<close> and \<^verbatim>\<open>Replace\<close>,
  \<^verbatim>\<open>fmt.Errorf("marshal resource %s to any: %w", name, err)\<close>,
  \<^verbatim>\<open>fmt.Errorf("snapshot resources: %w", err)\<close>,
  \<^verbatim>\<open>fmt.Errorf("validate generated discovery response: %w", err)\<close>,
  \<^verbatim>\<open>ctx.Err()\<close>, \<^verbatim>\<open>errors.New("server draining")\<close>,
  \<^verbatim>\<open>errors.New("request channel closed")\<close> and the two
  \<^verbatim>\<open>status.Error\<close> values of \<^verbatim>\<open>Stream\<close>.
\<close>

record any =
  any_TypeUrl :: string
  any_Value :: string

text \<open>
  A \<^verbatim>\<open>Resource\<close> is an interface value (\<^verbatim>\<open>proto.Message\<close> with
  \<^verbatim>\<open>Validate\<close>). The record lists what the package asks of it. \<open>GetName\<close> and
  \<open>GetClusterName\<close> are \<open>None\<close> when the dynamic type has no such method (the type
  assertion in \<^verbatim>\<open>resourceName\<close> fails) and hold the returned string otherwise;
  \<open>Validate\<close> is \<open>None\<close> for a nil error; \<open>MarshalAny\<close> is the result of
  \<^verbatim>\<open>ptypes.MarshalAny\<close> on the message.
\<close>

record resource =
  GetName :: "string option"
  GetClusterName :: "string option"
  Validate :: "string option"
  MarshalAny :: "string + any"

definition resourceName :: "resource \<Rightarrow> string res" where
  "resourceName r =
     (case GetName r of
        Some x \<Rightarrow> Ret x
      | None \<Rightarrow>
          (case GetClusterName r of
             Some x \<Rightarrow> Ret x
           | None \<Rightarrow> Panic ''unable to name resource''))"

record update =
  u_resources :: "string set"

datatype select = SendReady | CtxDone | Neither

text \<open>
  \<^verbatim>\<open>notify\<close> waits on a busy session with
  \<^verbatim>\<open>select { case session <- u: ... case <-ctx.Done(): ... }\<close>. Which case fires
  is decided by the session's reader and the context's deadline; \<open>blocked_send\<close> gives
  it for each session, \<open>Neither\<close> when the reader never drains its channel and the
  context is never done (\<^verbatim>\<open>context.Background()\<close>). \<open>ctx_Err\<close> is the text of
  \<^verbatim>\<open>ctx.Err()\<close>.
\<close>

record Context =
  ctx_Err :: string
  blocked_send :: "nat \<Rightarrow> select"

text \<open>
  The manager. \<open>version\<close> is a Go \<^verbatim>\<open>int\<close> (64 bits on the build target,
  \<^verbatim>\<open>m.version++\<close> wraps). A session is a channel of capacity one: its identity and
  the update it buffers, if any. \<open>OnAck\<close> tells whether a callback is installed.
\<close>

record manager =
  VersionPrefix :: string
  Type :: string
  OnAck :: bool
  version :: "64 word"
  resources :: "(string \<times> resource) list"
  sessions :: "(nat \<times> update option) list"

subsection \<open>Version strings\<close>

definition digit :: "nat \<Rightarrow> char" where
  "digit d = char_of (of_char CHR ''0'' + d)"

fun dec_nat :: "nat \<Rightarrow> string" where
  "dec_nat n = (if n < 10 then [digit n] else dec_nat (n div 10) @ [digit (n mod 10)])"

declare dec_nat.simps [simp del]

definition dec_int :: "int \<Rightarrow> string" where
  "dec_int i = (if i < 0 then CHR ''-'' # dec_nat (nat (- i)) else dec_nat (nat i))"

text \<open>\<^verbatim>\<open>fmt.Sprintf("%s%d", m.VersionPrefix, m.version)\<close>\<close>

definition versionString :: "manager \<Rightarrow> string" where
  "versionString m = VersionPrefix m @ dec_int (sint (version m))"




subsection \<open>Snapshots\<close>

fun snapshotAll_loop ::
  "(string \<times> resource) list \<Rightarrow> error + (any list \<times> string list)" where
  "snapshotAll_loop [] = Inr ([], [])"
| "snapshotAll_loop ((n, r) # rest) =
     (case MarshalAny r of
        Inl err \<Rightarrow> Inl (MarshalFailed n err)
      | Inr a \<Rightarrow>
          (case snapshotAll_loop rest of
             Inl e \<Rightarrow> Inl e
           | Inr (result, names) \<Rightarrow> Inr (a # result, n # names)))"

definition snapshotAll :: "manager \<Rightarrow> error + (any list \<times> string list \<times> string)" where
  "snapshotAll m =
     (case snapshotAll_loop (resources m) of
        Inl e \<Rightarrow> Inl e
      | Inr (result, names) \<Rightarrow> Inr (result, names, versionString m))"

fun snapshot_loop ::
  "(string \<times> resource) list \<Rightarrow> string list \<Rightarrow> error + (any list \<times> string list)" where
  "snapshot_loop rs [] = Inr ([], [])"
| "snapshot_loop rs (name # want) =
     (case map_of rs name of
        None \<Rightarrow> snapshot_loop rs want
      | Some r \<Rightarrow>
          (case MarshalAny r of
             Inl err \<Rightarrow> Inl (MarshalFailed name err)
           | Inr a \<Rightarrow>
               (case snapshot_loop rs want of
                  Inl e \<Rightarrow> Inl e
                | Inr (result, names) \<Rightarrow> Inr (a # result, name # names))))"

definition snapshot ::
  "manager \<Rightarrow> string slice \<Rightarrow> error + (any list \<times> string list \<times> string)" where
  "snapshot m want =
     (if len want = 0 then snapshotAll m
      else
        (case snapshot_loop (resources m) (elems want) of
           Inl e \<Rightarrow> Inl e
         | Inr (result, names) \<Rightarrow> Inr (result, names, versionString m)))"

text \<open>
  The statement of \<^verbatim>\<open>snapshot\<close> in the specification's words: the entries of the
  store for the names of \<open>want\<close> that the store knows, in the order of \<open>want\<close>.
\<close>

definition wanted_present ::
  "(string \<times> resource) list \<Rightarrow> string list \<Rightarrow> (string \<times> resource) list" where
  "wanted_present rs want =
     List.map_filter (\<lambda>name. map_option (Pair name) (map_of rs name)) want"

subsection \<open>Notification fan-out\<close>

text \<open>
  First pass of \<^verbatim>\<open>notify\<close>: a non-blocking send to every session. A channel of
  capacity one takes the update when its buffer is empty; otherwise the session joins
  \<^verbatim>\<open>blocked\<close>.
\<close>

fun try_send ::
  "update \<Rightarrow> (nat \<times> update option) list \<Rightarrow> (nat \<times> update option) list \<times> nat list" where
  "try_send u [] = ([], [])"
| "try_send u ((session, buf) # rest) =
     (case try_send u rest of
        (ss, blocked) \<Rightarrow>
          (case buf of
             None \<Rightarrow> ((session, Some u) # ss, blocked)
           | Some v \<Rightarrow> ((session, Some v) # ss, session # blocked)))"

text \<open>
  Second pass: a blocking send to each busy session, racing the context. A send that
  goes through means the reader took the older update and the buffer now holds \<open>u\<close>.
\<close>

fun wait_send ::
  "Context \<Rightarrow> update \<Rightarrow> nat list \<Rightarrow> (nat \<times> update option) list \<Rightarrow>
     error option res \<times> (nat \<times> update option) list" where
  "wait_send ctx u [] ss = (Ret None, ss)"
| "wait_send ctx u (session # blocked) ss =
     (case blocked_send ctx session of
        SendReady \<Rightarrow> wait_send ctx u blocked (AList.update session (Some u) ss)
      | CtxDone \<Rightarrow> (Ret (Some (ContextError (ctx_Err ctx))), ss)
      | Neither \<Rightarrow> (Blocked, ss))"

text \<open>
  A call on the manager yields its outcome, the manager afterwards, and the updates it
  handed to \<^verbatim>\<open>notify\<close>'s fan-out (none or one).
\<close>

type_synonym 'a call = "'a res \<times> manager \<times> update list"

definition notify :: "Context \<Rightarrow> string list \<Rightarrow> manager \<Rightarrow> error option call" where
  "notify ctx names m =
     (if length names < 1 then (Ret None, m, [])
      else
        (let m1 = m\<lparr>version := version m + 1\<rparr>;
             u = \<lparr>u_resources = set names\<rparr>
         in case try_send u (sessions m1) of
              (ss, blocked) \<Rightarrow>
                (case wait_send ctx u blocked ss of
                   (out, ss') \<Rightarrow> (out, m1\<lparr>sessions := ss'\<rparr>, [u]))))"

subsection \<open>Mutations\<close>

text \<open>
  The loop of \<^verbatim>\<open>Add\<close>: name the resource (which may panic), validate it (an error
  returns at once), record the name and store the resource. \<^verbatim>\<open>resourceName\<close> never
  blocks; the case \<open>Blocked\<close> below and in \<^verbatim>\<open>Replace\<close> only completes the
  case distinction.
\<close>

fun Add_loop ::
  "resource list \<Rightarrow> string list \<Rightarrow> (string \<times> resource) list \<Rightarrow>
     error option res \<times> string list \<times> (string \<times> resource) list" where
  "Add_loop [] changed store = (Ret None, changed, store)"
| "Add_loop (r # rs) changed store =
     (case resourceName r of
        Panic p \<Rightarrow> (Panic p, changed, store)
      | Blocked \<Rightarrow> (Blocked, changed, store)
      | Ret n \<Rightarrow>
          (case Validate r of
             Some err \<Rightarrow> (Ret (Some (ValidationFailed n err)), changed, store)
           | None \<Rightarrow> Add_loop rs (changed @ [n]) (AList.update n r store)))"

text \<open>\<^verbatim>\<open>Add\<close> drops the error of \<^verbatim>\<open>notify\<close> and returns nil.\<close>

definition Add :: "Context \<Rightarrow> resource list \<Rightarrow> manager \<Rightarrow> error option call" where
  "Add ctx rs m =
     (case Add_loop rs [] (resources m) of
        (Ret None, changed, store) \<Rightarrow>
          (case notify ctx changed (m\<lparr>resources := store\<rparr>) of
             (Ret x, m', pub) \<Rightarrow> (Ret None, m', pub)
           | (out, m', pub) \<Rightarrow> (out, m', pub))
      | (out, changed, store) \<Rightarrow> (out, m\<lparr>resources := store\<rparr>, []))"





subsection \<open>Listing\<close>

text \<open>
  \<^verbatim>\<open>List\<close> collects the stored resources and sorts them with \<^verbatim>\<open>sort.Slice\<close>
  under \<^verbatim>\<open>resourceName(result[i]) < resourceName(result[j])\<close>, the bytewise order
  of Go strings. With fewer than two elements the comparison is never called; with two or
  more it is called on every element, and panics on one without a name.
  \<^verbatim>\<open>sort.Slice\<close> is not stable; \<open>sort_key\<close> is, and agrees with every sort
  when the names differ pairwise.
\<close>

definition name_of :: "resource \<Rightarrow> string" where
  "name_of r = (case resourceName r of Ret n \<Rightarrow> n | Panic p \<Rightarrow> [] | Blocked \<Rightarrow> [])"

definition named :: "resource \<Rightarrow> bool" where
  "named r = (case resourceName r of Ret n \<Rightarrow> True | Panic p \<Rightarrow> False | Blocked \<Rightarrow> False)"

definition List :: "manager \<Rightarrow> resource list res" where
  "List m =
     (let result = map snd (resources m)
      in if 2 \<le> length result \<and> list_ex (\<lambda>r. \<not> named r) result
         then Panic ''unable to name resource''
         else Ret (sort_key name_of result))"

subsection \<open>Responses\<close>

text \<open>
  The outcome of \<^verbatim>\<open>rand.Read(hash[0:8])\<close>: the count \<open>rd_n\<close>, the error
  \<open>rd_err\<close> (\<open>None\<close> for nil) and the bytes \<open>rd_bytes\<close> a complete read leaves in
  the buffer. \<^verbatim>\<open>rand.Read\<close> is \<^verbatim>\<open>io.ReadFull\<close> on the system source: it
  fills the buffer and returns \<^verbatim>\<open>(8, nil)\<close>, or it returns an error; a failed read
  is taken to leave the buffer as it was initialised.
\<close>

record rand_read =
  rd_n :: int
  rd_err :: "string option"
  rd_bytes :: string

definition fill :: "string \<Rightarrow> string \<Rightarrow> string" where
  "fill hash bs = take (length hash) bs @ drop (length bs) hash"

definition randomString :: "rand_read \<Rightarrow> string" where
  "randomString rd =
     (let hash = replicate 8 CHR ''x''
      in if 8 \<le> rd_n rd \<and> rd_err rd = None
         then map (\<lambda>b. char_of ((of_char b :: nat) mod 26 + of_char CHR ''a''))
                (fill hash (rd_bytes rd))
         else hash)"

record DiscoveryResponse =
  VersionInfo :: string
  TypeUrl :: string
  Resources :: "any list"
  Nonce :: string

text \<open>
  What one push draws from the environment: the clock, the random read, the result of the
  generated \<^verbatim>\<open>res.Validate()\<close>, and whether \<^verbatim>\<open>resCh\<close> took the response
  before the five-second timer fired.
\<close>

record env =
  now :: int
  rand :: rand_read
  res_Validate :: "string option"
  pushed :: bool

definition BuildDiscoveryResponse ::
  "env \<Rightarrow> string slice \<Rightarrow> manager \<Rightarrow> error + (DiscoveryResponse \<times> string list)" where
  "BuildDiscoveryResponse e subscribed m =
     (case snapshot m subscribed of
        Inl err \<Rightarrow> Inl (SnapshotFailed err)
      | Inr (rs, names, v) \<Rightarrow>
          (let hash = randomString (rand e);
               res = \<lparr>VersionInfo = v, TypeUrl = Type m, Resources = rs,
                      Nonce = ''nonce-'' @ v @ ''-'' @ hash\<rparr>
           in case res_Validate e of
                Some err \<Rightarrow> Inl (ResponseInvalid err)
              | None \<Rightarrow> Inr (res, names)))"

subsection \<open>The stream driver\<close>

record tx =
  start :: int
  nonce :: string
  tx_version :: string

record Acknowledgment =
  Node :: string
  Version :: string
  Ack :: bool

record DiscoveryRequest =
  req_Node_Id :: string
  ResourceNames :: "string slice"
  req_TypeUrl :: string
  ResponseNonce :: string
  req_VersionInfo :: string
  ErrorDetail :: "string option"

text \<open>
  The local variables of \<^verbatim>\<open>Stream\<close>: \<^verbatim>\<open>node\<close>, \<^verbatim>\<open>resources\<close> (here
  \<open>subscribed\<close>) and the table \<^verbatim>\<open>txs\<close> of transactions in flight, keyed by nonce.
\<close>

record stream =
  node :: string
  subscribed :: "string slice"
  txs :: "(string \<times> tx) list"

datatype emitted = Sent DiscoveryResponse | Acked Acknowledgment

definition sendUpdate :: "env \<Rightarrow> manager \<Rightarrow> stream \<Rightarrow> stream \<times> emitted list" where
  "sendUpdate e m s =
     (case BuildDiscoveryResponse e (subscribed s) m of
        Inl err \<Rightarrow> (s, [])
      | Inr (res, names) \<Rightarrow>
          (let t = \<lparr>start = now e, nonce = Nonce res, tx_version = VersionInfo res\<rparr>
           in if pushed e
              then (s\<lparr>txs := AList.update (Nonce res) t (txs s)\<rparr>, [Sent res])
              else (s, [])))"

definition handleTx ::
  "manager \<Rightarrow> stream \<Rightarrow> tx \<Rightarrow> DiscoveryRequest \<Rightarrow> stream \<times> emitted list" where
  "handleTx m s t req =
     (let ack = (ErrorDetail req = None);
          v = req_VersionInfo req
      in (s\<lparr>txs := AList.delete (nonce t) (txs s)\<rparr>,
          if OnAck m then [Acked \<lparr>Node = node s, Version = v, Ack = ack\<rparr>] else []))"

text \<open>
  One event of the select loop: the drain signal, the end of the stream's context, a
  cleanup tick at a given time, the closing of the request channel, a request, or an
  update from the session channel.
\<close>

datatype event =
    Drain
  | Done string
  | Tick int
  | Closed
  | Request DiscoveryRequest env
  | Notified update env

definition minute :: int where
  "minute = 60000000000"

definition Stream_step ::
  "manager \<Rightarrow> event \<Rightarrow> stream \<Rightarrow> error + (stream \<times> emitted list)" where
  "Stream_step m ev s =
     (case ev of
        Drain \<Rightarrow> Inl ServerDraining
      | Done err \<Rightarrow> Inl (ContextError err)
      | Tick t_now \<Rightarrow>
          Inr (s\<lparr>txs := filter (\<lambda>(key, t). \<not> (t_now - start t > minute)) (txs s)\<rparr>, [])
      | Closed \<Rightarrow> Inl RequestChannelClosed
      | Request req e \<Rightarrow>
          (let newResources = ResourceNames req;
               s1 = (if node s = []
                     then s\<lparr>node := req_Node_Id req, subscribed := newResources\<rparr>
                     else s)
           in if subscribed s1 \<noteq> newResources
              then Inl (FailedPrecondition ''resource subscriptions changed unexpectedly'')
              else if req_TypeUrl req \<noteq> Type m
              then Inl (InvalidArgument ''wrong resource type requested'')
              else
                (case map_of (txs s1) (ResponseNonce req) of
                   Some t \<Rightarrow> Inr (handleTx m s1 t req)
                 | None \<Rightarrow> Inr (sendUpdate e m s1)))
      | Notified u e \<Rightarrow>
          (let send = list_ex (\<lambda>name. name \<in> u_resources u) (elems (subscribed s))
           in if len (subscribed s) = 0 \<or> send
              then Inr (sendUpdate e m s)
              else Inr (s, [])))"

text \<open>
  The loop runs until an event makes it return. \<open>Stream_run\<close> feeds it a finite
  sequence of events, each with the manager as it stands when the event is handled, from
  given local variables; it yields the error returned, if the loop returned, the local
  variables, and everything sent so far.
\<close>

fun Stream_run ::
  "(manager \<times> event) list \<Rightarrow> stream \<Rightarrow> emitted list \<Rightarrow> error option \<times> stream \<times> emitted list" where
  "Stream_run [] s outs = (None, s, outs)"
| "Stream_run ((m, ev) # evs) s outs =
     (case Stream_step m ev s of
        Inl err \<Rightarrow> (Some err, s, outs)
      | Inr (s', out) \<Rightarrow> Stream_run evs s' (outs @ out))"

definition Stream_init :: stream where
  "Stream_init = \<lparr>node = [], subscribed = None, txs = []\<rparr>"

text \<open>An event that is not a request with a node id.\<close>

definition anonymous :: "manager \<times> event \<Rightarrow> bool" where
  "anonymous p = (case snd p of Request req e \<Rightarrow> req_Node_Id req = [] | _ \<Rightarrow> True)"



subsection \<open>Concrete values\<close>

text \<open>
  Two clusters named by \<^verbatim>\<open>GetName\<close>, a second message under the name of the first,
  a load assignment named by \<^verbatim>\<open>GetClusterName\<close>, a cluster that fails validation,
  and a message of a type with neither accessor.
\<close>

definition cluster_A :: resource where
  "cluster_A =
     \<lparr>GetName = Some ''A'', GetClusterName = None, Validate = None,
      MarshalAny = Inr \<lparr>any_TypeUrl = ''type.googleapis.com/envoy.api.v2.Cluster'',
                         any_Value = ''A1''\<rparr>\<rparr>"



definition cluster_bad :: resource where
  "cluster_bad =
     \<lparr>GetName = Some ''C'', GetClusterName = None, Validate = Some ''invalid Cluster'',
      MarshalAny = Inr \<lparr>any_TypeUrl = ''type.googleapis.com/envoy.api.v2.Cluster'',
                         any_Value = ''C1''\<rparr>\<rparr>"



text \<open>A context that is done whenever \<^verbatim>\<open>notify\<close> has to wait.\<close>

definition expired :: Context where
  "expired = \<lparr>ctx_Err = ''context deadline exceeded'', blocked_send = (\<lambda>session. CtxDone)\<rparr>"

text \<open>A fresh manager, as \<^verbatim>\<open>NewManager\<close> builds it, with prefix \<^verbatim>\<open>v\<close>.\<close>

definition manager0 :: manager where
  "manager0 =
     \<lparr>VersionPrefix = ''v'', Type = ''type.googleapis.com/envoy.api.v2.Cluster'',
      OnAck = True, version = 0, resources = [], sessions = []\<rparr>"

definition manager_A :: manager where
  "manager_A = manager0\<lparr>version := 1, resources := [(''A'', cluster_A)]\<rparr>"

text \<open>A push whose random read fails and whose response is taken at once.\<close>

definition env_norand :: env where
  "env_norand =
     \<lparr>now = 0, rand = \<lparr>rd_n = 0, rd_err = Some ''EOF'', rd_bytes = []\<rparr>,
      res_Validate = None, pushed = True\<rparr>"

definition env_rand :: env where
  "env_rand =
     \<lparr>now = 0, rand = \<lparr>rd_n = 8, rd_err = None, rd_bytes = ''ABCDefgh''\<rparr>,
      res_Validate = None, pushed = True\<rparr>"

definition request :: "string \<Rightarrow> string slice \<Rightarrow> string \<Rightarrow> DiscoveryRequest" where
  "request node_id names n =
     \<lparr>req_Node_Id = node_id, ResourceNames = names,
      req_TypeUrl = ''type.googleapis.com/envoy.api.v2.Cluster'',
      ResponseNonce = n, req_VersionInfo = [], ErrorDetail = None\<rparr>"

text \<open>
  A stream that has latched node \<^verbatim>\<open>n1\<close> and the names \<^verbatim>\<open>A\<close>, \<^verbatim>\<open>B\<close>; the
  response a fresh manager builds for a wildcard subscription when the random read fails;
  and a stream of node \<^verbatim>\<open>n1\<close> with that response in flight.
\<close>

definition stream_AB :: stream where
  "stream_AB = \<lparr>node = ''n1'', subscribed = Some [''A'', ''B''], txs = []\<rparr>"



section \<open>Properties\<close>

subsection \<open>Auxiliary facts about the fan-out\<close>

lemma wait_send_out:
  "fst (wait_send ctx u blocked ss) = Blocked \<or> (\<exists>e. fst (wait_send ctx u blocked ss) = Ret e)"
  by (induction blocked arbitrary: ss) (auto split: select.splits)

lemma notify_cons:
  assumes "names \<noteq> []" and "notify ctx names m = (out, m', pub)"
  shows "m' = m\<lparr>version := version m + 1, sessions := sessions m'\<rparr>"
    and "pub = [\<lparr>u_resources = set names\<rparr>]"
    and "out = Blocked \<or> (\<exists>e. out = Ret e)"
proof -
  let ?u = "\<lparr>u_resources = set names\<rparr>"
  obtain ss blocked where t: "try_send ?u (sessions m) = (ss, blocked)"
    by (cases "try_send ?u (sessions m)")
  obtain out' ss' where w: "wait_send ctx ?u blocked ss = (out', ss')"
    by (cases "wait_send ctx ?u blocked ss")
  from wait_send_out [of ctx ?u blocked ss] w
  have o: "out' = Blocked \<or> (\<exists>e. out' = Ret e)" by simp
  from assms t w have eq: "out = out'" "m' = m\<lparr>version := version m + 1, sessions := ss'\<rparr>"
    "pub = [?u]"
    by (cases names; simp add: notify_def Let_def)+
  from eq show "m' = m\<lparr>version := version m + 1, sessions := sessions m'\<rparr>" by simp
  from eq show "pub = [?u]" by simp
  from eq o show "out = Blocked \<or> (\<exists>e. out = Ret e)" by simp
qed


subsection \<open>Naming a resource\<close>




subsection \<open>Add\<close>

text \<open>
  Claim C1 at the batch of a valid cluster \<^verbatim>\<open>A\<close> followed by an invalid cluster
  \<^verbatim>\<open>C\<close>, on a fresh manager: \<^verbatim>\<open>Add\<close> returns the validation error of \<^verbatim>\<open>C\<close>,
  the version is still 0 and nothing is published, but \<^verbatim>\<open>A\<close> is in the store.
\<close>

theorem Add_keeps_earlier_entries:
  "Add expired [cluster_A, cluster_bad] manager0 =
     (Ret (Some (ValidationFailed ''C'' ''invalid Cluster'')),
      manager0\<lparr>resources := [(''A'', cluster_A)]\<rparr>, [])"
  by (simp add: Add_def resourceName_def cluster_A_def cluster_bad_def manager0_def)

lemma Add_single:
  assumes "Validate r = None" and "resourceName r = Ret n" and "Add ctx [r] m = (out, m', pub)"
  shows "resources m' = AList.update n r (resources m)"
    and "version m' = version m + 1"
    and "pub = [\<lparr>u_resources = {n}\<rparr>]"
proof -
  let ?m1 = "m\<lparr>resources := AList.update n r (resources m)\<rparr>"
  obtain o1 m1 p1 where n: "notify ctx [n] ?m1 = (o1, m1, p1)"
    by (cases "notify ctx [n] ?m1")
  from notify_cons [OF _ n]
  have m1: "m1 = ?m1\<lparr>version := version ?m1 + 1, sessions := sessions m1\<rparr>"
    and p1: "p1 = [\<lparr>u_resources = set [n]\<rparr>]" by simp_all
  have r1: "resources m1 = AList.update n r (resources m)" by (subst m1) simp
  have v1: "version m1 = version m + 1" by (subst m1) simp
  from assms n have e: "m' = m1" "pub = p1"
    by (auto simp: Add_def split: res.splits)
  from e r1 show "resources m' = AList.update n r (resources m)" by simp
  from e v1 show "version m' = version m + 1" by simp
  from e p1 show "pub = [\<lparr>u_resources = {n}\<rparr>]" by simp
qed

text \<open>
  Claim C8. For a resource \<open>r\<close> that has a name and passes \<^verbatim>\<open>Validate\<close>, and from
  any manager, a second \<^verbatim>\<open>Add\<close> of the batch \<^verbatim>\<open>[r]\<close> leaves the resource map
  as the first one made it, with \<open>r\<close> under its name, and after the two calls the
  version counter is the starting counter plus two (in the arithmetic of the counter).
\<close>

theorem Add_twice:
  assumes "Validate r = None" and "resourceName r = Ret n"
    and "Add ctx [r] m = (out1, m1, pub1)" and "Add ctx' [r] m1 = (out2, m2, pub2)"
  shows "resources m2 = resources m1 \<and> map_of (resources m2) n = Some r \<and>
         version m2 = version m + 2"
  using Add_single [OF assms(1,2,3)] Add_single [OF assms(1,2,4)]
  by (simp add: AList.update_last AList.update_conv')

text \<open>
  The theorem for cluster \<^verbatim>\<open>A\<close> on a fresh manager: both calls return nil, the map
  holds \<^verbatim>\<open>A\<close> after each, and the version goes from 0 to 1 to 2.
\<close>

theorem Add_twice_witness:
  "Validate cluster_A = None \<and> resourceName cluster_A = Ret ''A'' \<and>
   Add expired [cluster_A] manager0 =
     (Ret None, manager_A, [\<lparr>u_resources = {''A''}\<rparr>]) \<and>
   Add expired [cluster_A] manager_A =
     (Ret None, manager_A\<lparr>version := 2\<rparr>, [\<lparr>u_resources = {''A''}\<rparr>]) \<and>
   resources (manager_A\<lparr>version := 2\<rparr>) = resources manager_A \<and>
   version (manager_A\<lparr>version := 2\<rparr>) = version manager0 + 2"
proof -
  have v: "Validate cluster_A = None" by (simp add: cluster_A_def)
  have n: "resourceName cluster_A = Ret ''A''" by (simp add: cluster_A_def resourceName_def)
  have 1: "Add expired [cluster_A] manager0 =
     (Ret None, manager_A, [\<lparr>u_resources = {''A''}\<rparr>])"
    by (simp add: Add_def n v notify_def manager_A_def manager0_def)
  have 2: "Add expired [cluster_A] manager_A =
     (Ret None, manager_A\<lparr>version := 2\<rparr>, [\<lparr>u_resources = {''A''}\<rparr>])"
    by (simp add: Add_def n v notify_def manager_A_def manager0_def)
  from Add_twice [OF v n 1 2] v n 1 2 show ?thesis by simp
qed

subsection \<open>Delete\<close>



subsection \<open>Snapshots of a subscription\<close>

lemma wanted_present_Nil: "wanted_present rs [] = []"
  by (simp add: wanted_present_def map_filter_simps)

lemma wanted_present_Cons:
  "wanted_present rs (name # want) =
     (case map_of rs name of
        None \<Rightarrow> wanted_present rs want
      | Some r \<Rightarrow> (name, r) # wanted_present rs want)"
  by (simp add: wanted_present_def map_filter_simps split: option.splits)

lemma wanted_present_names:
  "map fst (wanted_present rs want) = filter (\<lambda>name. map_of rs name \<noteq> None) want"
  by (induction want) (auto simp: wanted_present_Nil wanted_present_Cons split: option.splits)

lemma snapshot_loop_char:
  "case snapshot_loop rs want of
     Inr (result, names) \<Rightarrow>
       names = map fst (wanted_present rs want) \<and>
       map Inr result = map (MarshalAny \<circ> snd) (wanted_present rs want)
   | Inl e \<Rightarrow>
       (\<exists>name r err. (name, r) \<in> set (wanted_present rs want) \<and>
          MarshalAny r = Inl err \<and> e = MarshalFailed name err)"
  by (induction want)
    (auto simp: wanted_present_Nil wanted_present_Cons split: option.splits sum.splits)

text \<open>
  Claim C7. For a non-empty \<open>want\<close>, \<^verbatim>\<open>snapshot\<close> returns the names of \<open>want\<close>
  that the store knows, in the order of \<open>want\<close>, each with the marshalled form of the
  resource stored under it, and the version string; names the store does not know are
  skipped. When it returns an error instead, the error is the marshalling failure of a
  resource that is in the store under a wanted name: a missing name is never an error.
\<close>

theorem snapshot_wanted:
  "want \<noteq> [] \<Longrightarrow>
   (case snapshot m (Some want) of
      Inr (result, names, v) \<Rightarrow>
        names = filter (\<lambda>name. map_of (resources m) name \<noteq> None) want \<and>
        map Inr result = map (MarshalAny \<circ> snd) (wanted_present (resources m) want) \<and>
        v = versionString m
    | Inl e \<Rightarrow>
        (\<exists>name r err. (name, r) \<in> set (wanted_present (resources m) want) \<and>
           MarshalAny r = Inl err \<and> e = MarshalFailed name err))"
  using snapshot_loop_char [of "resources m" want]
  by (auto simp: snapshot_def len_def elems_def wanted_present_names split: sum.splits)

text \<open>
  The theorem on the manager that holds cluster \<^verbatim>\<open>A\<close> alone, asked for \<^verbatim>\<open>B\<close>
  and \<^verbatim>\<open>A\<close>: the snapshot is \<^verbatim>\<open>A\<close> at version \<^verbatim>\<open>v1\<close>.
\<close>

theorem snapshot_wanted_witness:
  "[''B'', ''A''] \<noteq> [] \<and>
   snapshot manager_A (Some [''B'', ''A'']) =
     Inr ([\<lparr>any_TypeUrl = ''type.googleapis.com/envoy.api.v2.Cluster'', any_Value = ''A1''\<rparr>],
          [''A''], ''v1'') \<and>
   filter (\<lambda>name. map_of (resources manager_A) name \<noteq> None) [''B'', ''A''] = [''A'']"
proof -
  have w: "[''B'', ''A''] \<noteq> ([] :: string list)" by simp
  have s: "snapshot manager_A (Some [''B'', ''A'']) =
     Inr ([\<lparr>any_TypeUrl = ''type.googleapis.com/envoy.api.v2.Cluster'', any_Value = ''A1''\<rparr>],
          [''A''], ''v1'')"
    by code_simp
  from snapshot_wanted [OF w, of manager_A] w s show ?thesis by simp
qed


subsection \<open>Version strings and nonces\<close>
















subsection \<open>The subscription check of the stream driver\<close>

text \<open>
  Claim C3, as the code has it. Once a node id is latched, a request ends the stream
  with \<^verbatim>\<open>FailedPrecondition\<close> exactly when its list of resource names is not the
  latched list, compared element by element in order (and nil against non-nil). So a
  request with another set of names always ends the stream, and so does one with the
  same names in another order; only the same list passes the check.
\<close>

theorem subscription_check_is_ordered:
  assumes "node s \<noteq> []"
  shows "((\<exists>msg. Stream_step m (Request req e) s = Inl (FailedPrecondition msg)) \<longleftrightarrow>
          ResourceNames req \<noteq> subscribed s) \<and>
         (set (elems (ResourceNames req)) \<noteq> set (elems (subscribed s)) \<longrightarrow>
          (\<exists>msg. Stream_step m (Request req e) s = Inl (FailedPrecondition msg)))"
  using assms
  by (auto simp: Stream_step_def Let_def split: option.splits)

text \<open>
  The theorem on the stream that latched \<^verbatim>\<open>A\<close>, \<^verbatim>\<open>B\<close>: the same list passes
  the check, the list of \<^verbatim>\<open>A\<close> alone ends the stream.
\<close>

theorem subscription_check_is_ordered_witness:
  "node stream_AB \<noteq> [] \<and>
   (\<forall>msg. Stream_step manager0 (Request (request ''n1'' (Some [''A'', ''B'']) []) env_rand)
            stream_AB \<noteq> Inl (FailedPrecondition msg)) \<and>
   (\<exists>msg. Stream_step manager0 (Request (request ''n1'' (Some [''A'']) []) env_rand)
            stream_AB = Inl (FailedPrecondition msg))"
proof -
  have n: "node stream_AB \<noteq> []" by (simp add: stream_AB_def)
  have 1: "ResourceNames (request ''n1'' (Some [''A'', ''B'']) []) = subscribed stream_AB"
    by (simp add: stream_AB_def request_def)
  have 2: "set (elems (ResourceNames (request ''n1'' (Some [''A'']) []))) \<noteq>
           set (elems (subscribed stream_AB))"
    by (auto simp add: stream_AB_def request_def elems_def)
  from subscription_check_is_ordered
         [OF n, of manager0 "request ''n1'' (Some [''A'', ''B'']) []" env_rand] 1
       subscription_check_is_ordered
         [OF n, of manager0 "request ''n1'' (Some [''A'']) []" env_rand] 2 n
  show ?thesis by blast
qed

text \<open>
  Against claim C3 as stated: the names \<^verbatim>\<open>B\<close>, \<^verbatim>\<open>A\<close> are a permutation of the
  latched \<^verbatim>\<open>A\<close>, \<^verbatim>\<open>B\<close>, and the request that carries them ends the stream with
  \<^verbatim>\<open>FailedPrecondition\<close>.
\<close>

theorem permuted_names_rejected:
  "mset [''B'', ''A''] = mset [''A'', ''B''] \<and>
   node stream_AB \<noteq> [] \<and> subscribed stream_AB = Some [''A'', ''B''] \<and>
   Stream_step manager0 (Request (request ''n1'' (Some [''B'', ''A'']) []) env_rand) stream_AB =
     Inl (FailedPrecondition ''resource subscriptions changed unexpectedly'')"
  by (simp add: Stream_step_def stream_AB_def request_def)

subsection \<open>Streams without a node id\<close>

lemma sendUpdate_frame:
  "sendUpdate e m s = (s', out) \<Longrightarrow> node s' = node s \<and> subscribed s' = subscribed s"
  by (auto simp: sendUpdate_def Let_def split: sum.splits if_splits)

lemma handleTx_frame:
  "handleTx m s t req = (s', out) \<Longrightarrow> node s' = node s \<and> subscribed s' = subscribed s"
  by (auto simp: handleTx_def Let_def)

lemma step_anonymous:
  assumes "node s = []" and "anonymous (m, ev)"
  shows "case Stream_step m ev s of
           Inl err \<Rightarrow> (\<forall>msg. err \<noteq> FailedPrecondition msg)
         | Inr (s', out) \<Rightarrow> node s' = [] \<and>
             (case ev of Request req e \<Rightarrow> subscribed s' = ResourceNames req | _ \<Rightarrow> True)"
proof (cases ev)
  case (Request req e)
  with assms show ?thesis
    by (auto simp: Stream_step_def Let_def anonymous_def split: option.splits sum.splits
         dest!: sendUpdate_frame handleTx_frame)
next
  case (Notified u e)
  with assms show ?thesis
    by (auto simp: Stream_step_def Let_def split: sum.splits dest!: sendUpdate_frame)
qed (use assms in \<open>auto simp: Stream_step_def\<close>)

lemma run_anonymous:
  assumes "list_all anonymous evs" and "node s = []"
    and "Stream_run evs s outs = (r, s', outs')"
  shows "(\<forall>msg. r \<noteq> Some (FailedPrecondition msg)) \<and> node s' = []"
  using assms
proof (induction evs arbitrary: s outs)
  case Nil
  then show ?case by simp
next
  case (Cons p evs)
  obtain m ev where p: "p = (m, ev)" by (cases p)
  from Cons.prems p have a: "anonymous (m, ev)" by simp
  show ?case
  proof (cases "Stream_step m ev s")
    case (Inl err)
    with step_anonymous [OF Cons.prems(2) a] Cons.prems p show ?thesis by auto
  next
    case (Inr q)
    obtain s1 out where q: "q = (s1, out)" by (cases q)
    with Inr step_anonymous [OF Cons.prems(2) a] have n: "node s1 = []" by simp
    from Cons.prems p Inr q have "Stream_run evs s1 (outs @ out) = (r, s', outs')" by simp
    from Cons.IH [OF _ n this] Cons.prems(1) show ?thesis by simp
  qed
qed

text \<open>
  Claim C10. Take a stream from its start through any events in which every request
  carries an empty node id. It never returns \<^verbatim>\<open>FailedPrecondition\<close>, whatever
  resource names the requests carry, and no node id is latched; and in that state a
  further request with an empty node id that the loop survives leaves the subscription
  equal to the names of that request. Hence a stream that did return
  \<^verbatim>\<open>FailedPrecondition\<close> had seen a request with a node id.
\<close>

theorem no_node_id_relatches:
  assumes "list_all anonymous evs" and "Stream_run evs Stream_init [] = (r, s, outs)"
  shows "(\<forall>msg. r \<noteq> Some (FailedPrecondition msg)) \<and> node s = [] \<and>
         (\<forall>m req e s' out.
            req_Node_Id req = [] \<and> Stream_step m (Request req e) s = Inr (s', out) \<longrightarrow>
              subscribed s' = ResourceNames req \<and> node s' = [])"
proof -
  have i: "node Stream_init = []" by (simp add: Stream_init_def)
  from run_anonymous [OF assms(1) i assms(2)]
  have 1: "(\<forall>msg. r \<noteq> Some (FailedPrecondition msg)) \<and> node s = []" .
  have "subscribed s' = ResourceNames req \<and> node s' = []"
    if "req_Node_Id req = []" and "Stream_step m (Request req e) s = Inr (s', out)"
    for m req e s' out
  proof -
    from that(1) have "anonymous (m, Request req e)" by (simp add: anonymous_def)
    from step_anonymous [OF _ this, of s] 1 that(2) show ?thesis by simp
  qed
  with 1 show ?thesis by blast
qed

text \<open>
  The theorem on two requests without node id, the first for \<^verbatim>\<open>A\<close>, the second
  for \<^verbatim>\<open>B\<close>: the loop goes on, and the subscription is \<^verbatim>\<open>B\<close>.
\<close>

theorem no_node_id_relatches_witness:
  "list_all anonymous
     [(manager0, Request (request [] (Some [''A'']) []) env_norand),
      (manager0, Request (request [] (Some [''B'']) []) env_norand)] \<and>
   fst (Stream_run
     [(manager0, Request (request [] (Some [''A'']) []) env_norand),
      (manager0, Request (request [] (Some [''B'']) []) env_norand)] Stream_init []) = None \<and>
   subscribed (fst (snd (Stream_run
     [(manager0, Request (request [] (Some [''A'']) []) env_norand),
      (manager0, Request (request [] (Some [''B'']) []) env_norand)] Stream_init []))) =
     Some [''B'']"
proof -
  let ?evs = "[(manager0, Request (request [] (Some [''A'']) []) env_norand),
               (manager0, Request (request [] (Some [''B'']) []) env_norand)]"
  have a: "list_all anonymous ?evs" by (simp add: anonymous_def request_def)
  obtain r s outs where run: "Stream_run ?evs Stream_init [] = (r, s, outs)"
    by (cases "Stream_run ?evs Stream_init []")
  from no_node_id_relatches [OF a run]
  have "\<forall>msg. r \<noteq> Some (FailedPrecondition msg)" by blast
  moreover have "fst (Stream_run ?evs Stream_init []) = None"
    by code_simp
  moreover have "subscribed (fst (snd (Stream_run ?evs Stream_init []))) = Some [''B'']"
    by code_simp
  ultimately show ?thesis using a by blast
qed


subsection \<open>Nonces of the transactions in flight\<close>















subsection \<open>Replace\<close>


















end
